theory Spec2Isabelle
  imports Main
begin

section \<open>Data model\<close>

text \<open>
  Python exceptions are values. \<open>HTTPException\<close> carries the status code and the detail
  string; every other exception carries its class and its \<open>str()\<close>. In Python
  \<open>JSONDecodeError\<close> is a subclass of \<open>ValueError\<close>, which \<open>is_ValueError\<close> records.
\<close>

datatype err_class = JSONDecodeError | ValueError | KeyError | AttributeError | OtherError

datatype exn = HTTPException nat string | PyException err_class string

fun is_ValueError :: "err_class \<Rightarrow> bool" where
  "is_ValueError JSONDecodeError = True"
| "is_ValueError ValueError = True"
| "is_ValueError _ = False"

definition HTTP_400_BAD_REQUEST :: nat where "HTTP_400_BAD_REQUEST = 400"
definition HTTP_403_FORBIDDEN :: nat where "HTTP_403_FORBIDDEN = 403"
definition HTTP_404_NOT_FOUND :: nat where "HTTP_404_NOT_FOUND = 404"
definition HTTP_413_REQUEST_ENTITY_TOO_LARGE :: nat where "HTTP_413_REQUEST_ENTITY_TOO_LARGE = 413"
definition HTTP_500_INTERNAL_SERVER_ERROR :: nat where "HTTP_500_INTERNAL_SERVER_ERROR = 500"

text \<open>A decoded JSON value, as \<open>json.loads\<close> returns it (numbers kept as integers).\<close>

datatype json = JNull | JBool bool | JNumber int | JString string
  | JArray "json list" | JObject "(string \<times> json) list"

type_synonym bytes = "nat list"

text \<open>
  The asset document. The source handles it as a dict; the fields are the keys that
  \<open>upload_new_asset\<close> writes. A nullable or possibly missing entry is an option.
\<close>

record asset =
  asset_id :: string
  userId :: string
  fileName :: string
  originalFileName :: "string option"
  mediaType :: string
  fileSize :: int
  mimeType :: "string option"
  blobUrl :: string
  thumbnailUrl :: "string option"
  description :: "string option"
  tags :: "json list option"
  uploadedAt :: string
  updatedAt :: string

text \<open>The upload as the route receives it: declared name and content type, and the stream.\<close>

record upload =
  filename :: string
  content_type :: "string option"
  content :: bytes

text \<open>The body of an update request (\<open>MediaUpdate\<close>): both fields default to \<open>None\<close>.\<close>

record media_update =
  mu_description :: "string option"
  mu_tags :: "json list option"

text \<open>
  The dict \<open>field_updates\<close> that the update route hands to the store: \<open>updatedAt\<close> is always
  present; a key that is not in the dict is \<open>None\<close> here.
\<close>

record field_updates =
  fu_updatedAt :: string
  fu_description :: "string option"
  fu_tags :: "json list option"


text \<open>The body that \<open>notify_logic_app\<close> posts.\<close>

record payload =
  p_type :: string
  p_value :: string
  p_filename :: string

datatype log_level = INFO | WARNING | ERROR

text \<open>
  Exceptions that do not derive from \<open>Exception\<close>, which an \<open>except Exception\<close> lets through.
  \<open>asyncio.CancelledError\<close> is raised at a pending \<open>await\<close> when the task is cancelled.
\<close>

datatype base_exn = CancelledError | KeyboardInterrupt | SystemExit

text \<open>
  How the awaited post ends: the response came and \<open>raise_for_status\<close> passed, an
  \<open>Exception\<close> was raised, or an exception outside \<open>Exception\<close> was raised.
\<close>

datatype post_outcome = Responded | Raised exn | RaisedBase base_exn

datatype task = NotifyLogicApp

text \<open>
  Everything a request does to the outside is an event; the world is the list of events so
  far, oldest first. An event records the call, made before the collaborator answers.
\<close>

datatype event =
    BlobUpload bytes string string "string option"
  | BlobDelete string
  | DbGet string string
  | DbCreate asset
  | DbUpdate string string field_updates
  | DbDelete string string
  | DbSearch string string int int
  | DbList string int int "string option"
  | CreateTask task
  | HttpPost string payload
  | Log log_level string "exn option"

type_synonym world = "event list"

text \<open>
  The collaborators whose code is outside the repository's sources (settings, blob storage,
  the document store, \<open>json\<close>, the imaging library, \<open>uuid\<close>, the clock, the HTTP client) are
  parameters. A stateful collaborator answers from the history of events, so nothing is
  assumed of it beyond determinism: \<open>Inl\<close> is the exception it raises.
\<close>

record env =
  allowed_image_types :: string
  allowed_video_types :: string
  allowed_image_types_list :: "string list"
  allowed_video_types_list :: "string list"
  max_file_size_bytes :: int
  logic_app_url :: "string option"
  json_loads :: "string \<Rightarrow> string + json"
  pil_thumbnail :: "bytes \<Rightarrow> nat \<times> nat \<Rightarrow> string + bytes"
  upload_file :: "world \<Rightarrow> bytes \<Rightarrow> string \<Rightarrow> string \<Rightarrow> string option \<Rightarrow> exn + (string \<times> string)"
  delete_file :: "world \<Rightarrow> string \<Rightarrow> exn + unit"
  get_media_by_id :: "world \<Rightarrow> string \<Rightarrow> string \<Rightarrow> exn + asset option"
  create_media :: "world \<Rightarrow> asset \<Rightarrow> exn + asset"
  update_media :: "world \<Rightarrow> string \<Rightarrow> string \<Rightarrow> field_updates \<Rightarrow> exn + asset"
  delete_media :: "world \<Rightarrow> string \<Rightarrow> string \<Rightarrow> exn + unit"
  search_media :: "world \<Rightarrow> string \<Rightarrow> string \<Rightarrow> int \<Rightarrow> int \<Rightarrow> exn + (asset list \<times> nat)"
  get_user_media :: "world \<Rightarrow> string \<Rightarrow> int \<Rightarrow> int \<Rightarrow> string option \<Rightarrow> exn + (asset list \<times> nat)"
  uuid4 :: "world \<Rightarrow> string"
  utcnow :: "world \<Rightarrow> string"
  http_post :: "world \<Rightarrow> string \<Rightarrow> payload \<Rightarrow> post_outcome"

text \<open>The events a run added to the world it started from.\<close>

definition emitted :: "world \<Rightarrow> world \<Rightarrow> event list" where
  "emitted w w' = drop (length w) w'"

section \<open>Python string operations\<close>

text \<open>\<open>str.lower\<close> on the ASCII letters, which is all a MIME type holds.\<close>

definition lower_char :: "char \<Rightarrow> char" where
  "lower_char c =
     (case map_of (zip ''ABCDEFGHIJKLMNOPQRSTUVWXYZ'' ''abcdefghijklmnopqrstuvwxyz'') c of
        Some l \<Rightarrow> l
      | None \<Rightarrow> c)"

definition lower :: "string \<Rightarrow> string" where
  "lower s = map lower_char s"

text \<open>\<open>s.split("/")[-1]\<close>: what follows the last slash, the whole string when there is none.\<close>

definition last_segment :: "string \<Rightarrow> string" where
  "last_segment s = rev (takeWhile (\<lambda>c. c \<noteq> CHR ''/'') (rev s))"

text \<open>
  \<open>s.replace(old, new)\<close>: every non-overlapping occurrence, left to right; a string without
  an occurrence comes back unchanged; an empty \<open>old\<close> matches before every character and
  at the end.
\<close>

fun replace_nonempty :: "string \<Rightarrow> string \<Rightarrow> string \<Rightarrow> string" where
  "replace_nonempty old new [] = []"
| "replace_nonempty old new (c # cs) =
     (if take (length old) (c # cs) = old
      then new @ replace_nonempty old new (drop (length old - 1) cs)
      else c # replace_nonempty old new cs)"

definition replace :: "string \<Rightarrow> string \<Rightarrow> string \<Rightarrow> string" where
  "replace s old new =
     (if old = [] then new @ concat (map (\<lambda>c. c # new) s) else replace_nonempty old new s)"

section \<open>media_helpers\<close>

definition retrieve_and_confirm_asset_ownership ::
  "env \<Rightarrow> world \<Rightarrow> string \<Rightarrow> string \<Rightarrow> (exn + asset) \<times> world" where
  "retrieve_and_confirm_asset_ownership e w asset_identifier account_identifier =
     (let w1 = w @ [DbGet asset_identifier account_identifier] in
      case get_media_by_id e w asset_identifier account_identifier of
        Inl x \<Rightarrow> (Inl x, w1)
      | Inr None \<Rightarrow>
          (Inl (HTTPException HTTP_404_NOT_FOUND ''Asset resource could not be located''), w1)
      | Inr (Some asset_document) \<Rightarrow>
          if userId asset_document \<noteq> account_identifier
          then (Inl (HTTPException HTTP_403_FORBIDDEN
                  ''Authorization failed: insufficient rights to access this asset''), w1)
          else (Inr asset_document, w1))"

definition confirm_asset_presence ::
  "env \<Rightarrow> world \<Rightarrow> string \<Rightarrow> string \<Rightarrow> (exn + asset) \<times> world" where
  "confirm_asset_presence e w asset_identifier account_identifier =
     (let w1 = w @ [DbGet asset_identifier account_identifier] in
      case get_media_by_id e w asset_identifier account_identifier of
        Inl x \<Rightarrow> (Inl x, w1)
      | Inr None \<Rightarrow>
          (Inl (HTTPException HTTP_404_NOT_FOUND ''Specified asset resource is not available''), w1)
      | Inr (Some asset_document) \<Rightarrow> (Inr asset_document, w1))"

text \<open>
  A missing or null \<open>originalFileName\<close> raises inside the \<open>try\<close> (KeyError, AttributeError):
  the handler logs a warning and returns \<open>None\<close>. A falsy \<open>thumbnailUrl\<close> is \<open>None\<close> or the
  empty string.
\<close>

definition parse_preview_storage_identifier :: "world \<Rightarrow> asset \<Rightarrow> string option \<times> world" where
  "parse_preview_storage_identifier w asset_document =
     (if thumbnailUrl asset_document = None \<or> thumbnailUrl asset_document = Some []
      then (None, w)
      else case originalFileName asset_document of
        None \<Rightarrow> (None, w @ [Log WARNING ''Preview identifier extraction failed: '' None])
      | Some name \<Rightarrow>
          (let source_filename = last_segment name;
               preview_storage_id =
                 replace (fileName asset_document) source_filename (''thumb_'' @ source_filename)
           in (Some preview_storage_id, w)))"

section \<open>utils\<close>

text \<open>\<open>content_type.lower()\<close> on a part that declares no content type is an AttributeError.\<close>

definition determine_file_category :: "env \<Rightarrow> upload \<Rightarrow> exn + string" where
  "determine_file_category e uploaded_file =
     (case content_type uploaded_file of
        None \<Rightarrow> Inl (PyException AttributeError
                 ([CHR 0x27] @ ''NoneType'' @ [CHR 0x27] @ '' object has no attribute ''
                  @ [CHR 0x27] @ ''lower'' @ [CHR 0x27]))
      | Some ct \<Rightarrow>
          (let mime_type = lower ct in
           if mime_type \<in> set (allowed_image_types_list e) then Inr ''image''
           else if mime_type \<in> set (allowed_video_types_list e) then Inr ''video''
           else Inl (HTTPException HTTP_400_BAD_REQUEST
                  (''Content type '' @ [CHR 0x27] @ mime_type @ [CHR 0x27]
                   @ '' is not permitted. Supported types: '' @ allowed_image_types e
                   @ '', '' @ allowed_video_types e))))"

text \<open>
  Seeking to the end and back measures the stream: its length. The detail string leaves
  out the two sizes, which the source prints in megabytes.
\<close>

definition verify_file_constraints :: "env \<Rightarrow> upload \<Rightarrow> int option \<Rightarrow> exn + int" where
  "verify_file_constraints e uploaded_file size_limit =
     (let limit = (case size_limit of None \<Rightarrow> max_file_size_bytes e | Some l \<Rightarrow> l);
          measured_size = int (length (content uploaded_file))
      in if measured_size > limit
         then Inl (HTTPException HTTP_413_REQUEST_ENTITY_TOO_LARGE
                ''File size surpasses maximum limit'')
         else Inr measured_size)"

text \<open>The whole body is one \<open>try\<close>; \<open>pil_thumbnail\<close> is what the imaging library does in it.\<close>

definition create_preview_image :: "env \<Rightarrow> world \<Rightarrow> bytes \<Rightarrow> nat \<times> nat \<Rightarrow> bytes option \<times> world" where
  "create_preview_image e w visual_data dimension_limit =
     (case pil_thumbnail e visual_data dimension_limit of
        Inl preview_error \<Rightarrow>
          (None, w @ [Log ERROR ''Preview generation failed: ''
                        (Some (PyException OtherError preview_error))])
      | Inr preview \<Rightarrow> (Some preview, w))"

definition generate_thumbnail :: "env \<Rightarrow> world \<Rightarrow> bytes \<Rightarrow> bytes option \<times> world" where
  "generate_thumbnail e w visual_data = create_preview_image e w visual_data (300, 300)"

section \<open>routes_media\<close>




fun posted :: "event list \<Rightarrow> (string \<times> payload) list" where
  "posted [] = []"
| "posted (HttpPost u p # es) = (u, p) # posted es"
| "posted (ev # es) = posted es"

text \<open>
  Lines 76 to 86 of the upload route. The inner \<open>except\<close> names \<open>json.JSONDecodeError\<close>
  only, so the \<open>ValueError\<close> raised for a value that is not a list leaves the inner \<open>try\<close>.
\<close>

definition parse_label_data :: "env \<Rightarrow> string option \<Rightarrow> exn + json list option" where
  "parse_label_data e label_data =
     (case label_data of
        None \<Rightarrow> Inr None
      | Some s \<Rightarrow>
          if s = [] then Inr None
          else (case json_loads e s of
                  Inl _ \<Rightarrow> Inl (HTTPException HTTP_400_BAD_REQUEST
                                ''Label data format invalid. Expected JSON array.'')
                | Inr (JArray label_list) \<Rightarrow> Inr (Some label_list)
                | Inr _ \<Rightarrow> Inl (PyException ValueError ''Labels must be provided as an array'')))"

text \<open>Lines 100 to 116: the preview of an image, \<open>None\<close> unless it was made and stored.\<close>

definition store_preview ::
  "env \<Rightarrow> world \<Rightarrow> string \<Rightarrow> bytes \<Rightarrow> string \<Rightarrow> upload \<Rightarrow> string option \<times> world" where
  "store_preview e w asset_type binary_content account_identifier uploaded_file =
     (if asset_type = ''image''
      then (case generate_thumbnail e w binary_content of
              (None, w1) \<Rightarrow> (None, w1)
            | (Some preview_binary, w1) \<Rightarrow>
                if preview_binary = [] then (None, w1)
                else (let w2 = w1 @ [BlobUpload preview_binary account_identifier
                                       (''thumb_'' @ filename uploaded_file) (Some ''image/jpeg'')] in
                      case upload_file e w1 preview_binary account_identifier
                             (''thumb_'' @ filename uploaded_file) (Some ''image/jpeg'') of
                        Inl preview_error \<Rightarrow>
                          (None, w2 @ [Log WARNING ''Preview generation failed: '' (Some preview_error)])
                      | Inr (preview_blob_id, preview_image_url) \<Rightarrow> (Some preview_image_url, w2)))
      else (None, w))"

text \<open>Lines 119 to 135: the record, with the identifier and the timestamp drawn just before.\<close>

definition build_asset_record ::
  "env \<Rightarrow> world \<Rightarrow> upload \<Rightarrow> string \<Rightarrow> string \<Rightarrow> int \<Rightarrow> string \<Rightarrow> string \<Rightarrow>
   string option \<Rightarrow> string option \<Rightarrow> json list option \<Rightarrow> asset" where
  "build_asset_record e w uploaded_file account_identifier asset_type byte_size storage_blob_id
     storage_url preview_image_url content_description label_list =
     (let asset_identifier = uuid4 e w;
          timestamp_now = utcnow e w
      in \<lparr>asset_id = asset_identifier,
          userId = account_identifier,
          fileName = storage_blob_id,
          originalFileName = Some (filename uploaded_file),
          mediaType = asset_type,
          fileSize = byte_size,
          mimeType = content_type uploaded_file,
          blobUrl = storage_url,
          thumbnailUrl = preview_image_url,
          description = content_description,
          tags = label_list,
          uploadedAt = timestamp_now,
          updatedAt = timestamp_now\<rparr>)"

text \<open>
  The body of the \<open>try\<close> of the upload route. Reading the upload does not fail, and
  \<open>MediaResponse(**doc)\<close> is the document itself, the record having the response's fields.
\<close>

definition upload_new_asset_try ::
  "env \<Rightarrow> world \<Rightarrow> upload \<Rightarrow> string option \<Rightarrow> string option \<Rightarrow> string \<Rightarrow> (exn + asset) \<times> world" where
  "upload_new_asset_try e w uploaded_file content_description label_data account_identifier =
     (case determine_file_category e uploaded_file of
        Inl x \<Rightarrow> (Inl x, w)
      | Inr asset_type \<Rightarrow>
     (case verify_file_constraints e uploaded_file None of
        Inl x \<Rightarrow> (Inl x, w)
      | Inr byte_size \<Rightarrow>
     (case parse_label_data e label_data of
        Inl x \<Rightarrow> (Inl x, w)
      | Inr label_list \<Rightarrow>
     (let binary_content = content uploaded_file;
          w1 = w @ [BlobUpload binary_content account_identifier (filename uploaded_file)
                      (content_type uploaded_file)] in
      case upload_file e w binary_content account_identifier (filename uploaded_file)
             (content_type uploaded_file) of
        Inl x \<Rightarrow> (Inl x, w1)
      | Inr (storage_blob_id, storage_url) \<Rightarrow>
     (case store_preview e w1 asset_type binary_content account_identifier uploaded_file of
        (preview_image_url, w2) \<Rightarrow>
     (let asset_record = build_asset_record e w2 uploaded_file account_identifier asset_type
                           byte_size storage_blob_id storage_url preview_image_url
                           content_description label_list;
          w3 = w2 @ [DbCreate asset_record] in
      case create_media e w2 asset_record of
        Inl x \<Rightarrow> (Inl x, w3)
      | Inr persisted_asset \<Rightarrow> (Inr persisted_asset, w3 @ [CreateTask NotifyLogicApp])))))))"

definition upload_new_asset ::
  "env \<Rightarrow> world \<Rightarrow> upload \<Rightarrow> string option \<Rightarrow> string option \<Rightarrow> string \<Rightarrow> (exn + asset) \<times> world" where
  "upload_new_asset e w file content_description label_data account_identifier =
     (case upload_new_asset_try e w file content_description label_data account_identifier of
        (Inr r, w') \<Rightarrow> (Inr r, w')
      | (Inl (HTTPException c d), w') \<Rightarrow> (Inl (HTTPException c d), w')
      | (Inl (PyException k m), w') \<Rightarrow>
          (Inl (HTTPException HTTP_500_INTERNAL_SERVER_ERROR (''Upload operation failed: '' @ m)),
           w' @ [Log ERROR ''Asset upload failed: '' (Some (PyException k m))]))"



definition retrieve_single_asset ::
  "env \<Rightarrow> world \<Rightarrow> string \<Rightarrow> string \<Rightarrow> (exn + asset) \<times> world" where
  "retrieve_single_asset e w media_id account_identifier =
     (case retrieve_and_confirm_asset_ownership e w media_id account_identifier of
        (Inr asset_record, w1) \<Rightarrow> (Inr asset_record, w1 @ [CreateTask NotifyLogicApp])
      | (Inl (HTTPException c d), w1) \<Rightarrow> (Inl (HTTPException c d), w1)
      | (Inl (PyException k m), w1) \<Rightarrow>
          (Inl (HTTPException HTTP_500_INTERNAL_SERVER_ERROR ''Failed to retrieve asset details''),
           w1 @ [Log ERROR ''Single asset retrieval failed: '' (Some (PyException k m))]))"

text \<open>Lines 290 to 296: the dict starts with the timestamp; a field that is not \<open>None\<close> is added.\<close>

definition assemble_field_updates :: "string \<Rightarrow> media_update \<Rightarrow> field_updates" where
  "assemble_field_updates now modification_data =
     (let fu0 = \<lparr>fu_updatedAt = now, fu_description = None, fu_tags = None\<rparr>;
          fu1 = (case mu_description modification_data of
                   None \<Rightarrow> fu0 | Some d \<Rightarrow> fu0\<lparr>fu_description := Some d\<rparr>);
          fu2 = (case mu_tags modification_data of
                   None \<Rightarrow> fu1 | Some t \<Rightarrow> fu1\<lparr>fu_tags := Some t\<rparr>)
      in fu2)"

definition modify_asset_metadata_try ::
  "env \<Rightarrow> world \<Rightarrow> string \<Rightarrow> media_update \<Rightarrow> string \<Rightarrow> (exn + asset) \<times> world" where
  "modify_asset_metadata_try e w media_id modification_data account_identifier =
     (case retrieve_and_confirm_asset_ownership e w media_id account_identifier of
        (Inl x, w1) \<Rightarrow> (Inl x, w1)
      | (Inr asset_record, w1) \<Rightarrow>
          (let field_updates = assemble_field_updates (utcnow e w1) modification_data;
               w2 = w1 @ [DbUpdate media_id account_identifier field_updates] in
           case update_media e w1 media_id account_identifier field_updates of
             Inl x \<Rightarrow> (Inl x, w2)
           | Inr modified_asset \<Rightarrow> (Inr modified_asset, w2 @ [CreateTask NotifyLogicApp])))"

definition modify_asset_metadata ::
  "env \<Rightarrow> world \<Rightarrow> string \<Rightarrow> media_update \<Rightarrow> string \<Rightarrow> (exn + asset) \<times> world" where
  "modify_asset_metadata e w media_id modification_data account_identifier =
     (case modify_asset_metadata_try e w media_id modification_data account_identifier of
        (Inr r, w') \<Rightarrow> (Inr r, w')
      | (Inl (HTTPException c d), w') \<Rightarrow> (Inl (HTTPException c d), w')
      | (Inl (PyException k m), w') \<Rightarrow>
          if is_ValueError k then (Inl (HTTPException HTTP_404_NOT_FOUND m), w')
          else (Inl (HTTPException HTTP_500_INTERNAL_SERVER_ERROR ''Failed to update asset metadata''),
                w' @ [Log ERROR ''Asset modification failed: '' (Some (PyException k m))]))"

text \<open>Lines 341 to 347: the preview blob is deleted when its key is truthy; a failure is logged.\<close>

definition delete_preview :: "env \<Rightarrow> world \<Rightarrow> string option \<Rightarrow> world" where
  "delete_preview e w preview_blob_identifier =
     (case preview_blob_identifier of
        None \<Rightarrow> w
      | Some k \<Rightarrow>
          if k = [] then w
          else (let w1 = w @ [BlobDelete k] in
                case delete_file e w k of
                  Inl preview_delete_error \<Rightarrow>
                    w1 @ [Log WARNING ''Preview deletion failed: '' (Some preview_delete_error)]
                | Inr _ \<Rightarrow> w1))"

definition remove_asset_try :: "env \<Rightarrow> world \<Rightarrow> string \<Rightarrow> string \<Rightarrow> (exn + unit) \<times> world" where
  "remove_asset_try e w media_id account_identifier =
     (case retrieve_and_confirm_asset_ownership e w media_id account_identifier of
        (Inl x, w1) \<Rightarrow> (Inl x, w1)
      | (Inr asset_record, w1) \<Rightarrow>
          (let w2 = w1 @ [BlobDelete (fileName asset_record)] in
           case delete_file e w1 (fileName asset_record) of
             Inl x \<Rightarrow> (Inl x, w2)
           | Inr _ \<Rightarrow>
               (case parse_preview_storage_identifier w2 asset_record of
                  (preview_blob_identifier, w3) \<Rightarrow>
                    (let w4 = delete_preview e w3 preview_blob_identifier;
                         w5 = w4 @ [DbDelete media_id account_identifier] in
                     case delete_media e w4 media_id account_identifier of
                       Inl x \<Rightarrow> (Inl x, w5)
                     | Inr _ \<Rightarrow> (Inr (), w5 @ [CreateTask NotifyLogicApp])))))"

definition remove_asset :: "env \<Rightarrow> world \<Rightarrow> string \<Rightarrow> string \<Rightarrow> (exn + unit) \<times> world" where
  "remove_asset e w media_id account_identifier =
     (case remove_asset_try e w media_id account_identifier of
        (Inr r, w') \<Rightarrow> (Inr r, w')
      | (Inl (HTTPException c d), w') \<Rightarrow> (Inl (HTTPException c d), w')
      | (Inl (PyException k m), w') \<Rightarrow>
          (Inl (HTTPException HTTP_500_INTERNAL_SERVER_ERROR ''Failed to delete asset''),
           w' @ [Log ERROR ''Asset deletion failed: '' (Some (PyException k m))]))"

section \<open>A store that merges, and a small environment\<close>

text \<open>
  Modelled from the spec: the Metadata Store's \<open>updateAsset(id, owner, partialFields)\<close>, whose
  code (\<open>cosmos_db.update_media\<close>) is not among the sources. The keys present in the partial
  fields replace the stored ones; every other field of the record stays.
\<close>

definition apply_field_updates :: "field_updates \<Rightarrow> asset \<Rightarrow> asset" where
  "apply_field_updates fu r =
     (let r1 = r\<lparr>updatedAt := fu_updatedAt fu\<rparr>;
          r2 = (case fu_description fu of None \<Rightarrow> r1 | Some d \<Rightarrow> r1\<lparr>description := Some d\<rparr>);
          r3 = (case fu_tags fu of None \<Rightarrow> r2 | Some t \<Rightarrow> r2\<lparr>tags := Some t\<rparr>)
      in r3)"

text \<open>
  A concrete environment to run the routes in: one stored image of account \<open>alice\<close>, a store
  that looks assets up by identifier alone, and collaborators that succeed.
\<close>

definition sample_asset :: asset where
  "sample_asset =
     \<lparr>asset_id = ''m1'', userId = ''alice'', fileName = ''alice/cat.png'',
      originalFileName = Some ''cat.png'', mediaType = ''image'', fileSize = 3,
      mimeType = Some ''image/png'', blobUrl = ''https://blob/alice/cat.png'',
      thumbnailUrl = Some ''https://blob/alice/thumb_cat.png'', description = Some ''a cat'',
      tags = Some [JString ''pet''], uploadedAt = ''t0'', updatedAt = ''t0''\<rparr>"

definition sample_json_loads :: "string \<Rightarrow> string + json" where
  "sample_json_loads s =
     (if s = ''[]'' then Inr (JArray [])
      else if s = ''{}'' then Inr (JObject [])
      else if s = ''42'' then Inr (JNumber 42)
      else Inl ''Expecting value'')"

definition sample_env :: env where
  "sample_env =
     \<lparr>allowed_image_types = ''image/jpeg,image/png'',
      allowed_video_types = ''video/mp4'',
      allowed_image_types_list = [''image/jpeg'', ''image/png''],
      allowed_video_types_list = [''video/mp4''],
      max_file_size_bytes = 4,
      logic_app_url = Some ''https://hook'',
      json_loads = sample_json_loads,
      pil_thumbnail = (\<lambda>d dim. if d = [] then Inl ''cannot identify image file'' else Inr (take 1 d)),
      upload_file = (\<lambda>w d a n ct. Inr (a @ ''/'' @ n, ''https://blob/'' @ a @ ''/'' @ n)),
      delete_file = (\<lambda>w k. Inr ()),
      get_media_by_id = (\<lambda>w i a. if i = ''m1'' then Inr (Some sample_asset) else Inr None),
      create_media = (\<lambda>w r. Inr r),
      update_media = (\<lambda>w i a fu. if i = ''m1'' then Inr (apply_field_updates fu sample_asset)
                                  else Inl (PyException ValueError ''Media not found'')),
      delete_media = (\<lambda>w i a. Inr ()),
      search_media = (\<lambda>w a q p n. Inr ([], 0)),
      get_user_media = (\<lambda>w a p n c. Inr ([], 0)),
      uuid4 = (\<lambda>w. ''m2''),
      utcnow = (\<lambda>w. ''t1''),
      http_post = (\<lambda>w u p. Responded)\<rparr>"

text \<open>The same environment with one collaborator failing.\<close>

definition storage_down_env :: env where
  "storage_down_env =
     sample_env\<lparr>upload_file := (\<lambda>w d a n ct. Inl (PyException OtherError ''storage down''))\<rparr>"

definition preview_write_down_env :: env where
  "preview_write_down_env =
     sample_env\<lparr>upload_file := (\<lambda>w d a n ct.
        if take 6 n = ''thumb_'' then Inl (PyException OtherError ''storage down'')
        else Inr (a @ ''/'' @ n, ''https://blob/'' @ a @ ''/'' @ n))\<rparr>"

definition decoder_down_env :: env where
  "decoder_down_env = sample_env\<lparr>pil_thumbnail := (\<lambda>d dim. Inl ''cannot identify image file'')\<rparr>"

definition primary_delete_down_env :: env where
  "primary_delete_down_env =
     sample_env\<lparr>delete_file := (\<lambda>w k.
        if k = ''alice/cat.png'' then Inl (PyException OtherError ''storage down'') else Inr ())\<rparr>"

definition preview_gone_env :: env where
  "preview_gone_env =
     sample_env\<lparr>delete_file := (\<lambda>w k.
        if k = ''alice/thumb_cat.png'' then Inl (PyException OtherError ''BlobNotFound'') else Inr ())\<rparr>"




text \<open>An image whose storage key was chosen by the store and does not hold its original name.\<close>

definition renamed_asset :: asset where
  "renamed_asset = sample_asset\<lparr>fileName := ''alice/3f2a91.png''\<rparr>"

definition renamed_env :: env where
  "renamed_env = sample_env\<lparr>get_media_by_id := (\<lambda>w i a. Inr (Some renamed_asset))\<rparr>"

definition sample_png :: upload where
  "sample_png = \<lparr>filename = ''dog.png'', content_type = Some ''image/PNG'', content = [137, 80, 78]\<rparr>"

definition sample_mp4 :: upload where
  "sample_mp4 = \<lparr>filename = ''dog.mp4'', content_type = Some ''video/mp4'', content = [0, 0]\<rparr>"

section \<open>Basic facts\<close>

lemmas status_defs = HTTP_400_BAD_REQUEST_def HTTP_403_FORBIDDEN_def HTTP_404_NOT_FOUND_def
  HTTP_413_REQUEST_ENTITY_TOO_LARGE_def HTTP_500_INTERNAL_SERVER_ERROR_def

lemma emitted_append: "emitted w (w @ xs) = xs"
  by (simp add: emitted_def)

lemma emitted_self: "emitted w w = []"
  by (simp add: emitted_def)

lemma emitted_append2: "emitted w ((w @ xs) @ ys) = xs @ ys"
  by (simp add: emitted_def)

section \<open>Ownership\<close>

text \<open>
  C1. Read, update and delete all start with the strict ownership check. When the store
  returns an asset for the given identifier whose \<open>userId\<close> is not the caller's, the check
  and each of the three routes fail with 403 Forbidden, and nothing but the lookup has
  happened. When the \<open>userId\<close> is the caller's, the check returns the asset, the read
  returns it, the update returns what the store's update returns, and the delete succeeds
  when the deletion of the primary blob and of the record succeed.
\<close>

theorem strict_ownership_check:
  assumes "get_media_by_id e w asset_identifier account_identifier = Inr (Some asset_document)"
  shows "(userId asset_document \<noteq> account_identifier \<longrightarrow>
            retrieve_and_confirm_asset_ownership e w asset_identifier account_identifier =
              (Inl (HTTPException 403 ''Authorization failed: insufficient rights to access this asset''),
               w @ [DbGet asset_identifier account_identifier]) \<and>
            retrieve_single_asset e w asset_identifier account_identifier =
              (Inl (HTTPException 403 ''Authorization failed: insufficient rights to access this asset''),
               w @ [DbGet asset_identifier account_identifier]) \<and>
            modify_asset_metadata e w asset_identifier modification_data account_identifier =
              (Inl (HTTPException 403 ''Authorization failed: insufficient rights to access this asset''),
               w @ [DbGet asset_identifier account_identifier]) \<and>
            remove_asset e w asset_identifier account_identifier =
              (Inl (HTTPException 403 ''Authorization failed: insufficient rights to access this asset''),
               w @ [DbGet asset_identifier account_identifier]))
       \<and> (userId asset_document = account_identifier \<longrightarrow>
            retrieve_and_confirm_asset_ownership e w asset_identifier account_identifier =
              (Inr asset_document, w @ [DbGet asset_identifier account_identifier]) \<and>
            retrieve_single_asset e w asset_identifier account_identifier =
              (Inr asset_document,
               w @ [DbGet asset_identifier account_identifier, CreateTask NotifyLogicApp]) \<and>
            (\<forall>r. update_media e (w @ [DbGet asset_identifier account_identifier]) asset_identifier
                    account_identifier
                    (assemble_field_updates
                       (utcnow e (w @ [DbGet asset_identifier account_identifier]))
                       modification_data) = Inr r \<longrightarrow>
                 fst (modify_asset_metadata e w asset_identifier modification_data
                        account_identifier) = Inr r) \<and>
            (delete_file e (w @ [DbGet asset_identifier account_identifier])
                 (fileName asset_document) = Inr ()
               \<and> (\<forall>w'. delete_media e w' asset_identifier account_identifier = Inr ()) \<longrightarrow>
                 fst (remove_asset e w asset_identifier account_identifier) = Inr ()))"
  using assms
  by (auto simp: retrieve_and_confirm_asset_ownership_def retrieve_single_asset_def
      modify_asset_metadata_def modify_asset_metadata_try_def remove_asset_def remove_asset_try_def
      status_defs Let_def split: prod.splits)

theorem strict_ownership_check_witness:
  "retrieve_single_asset sample_env [] ''m1'' ''bob'' =
     (Inl (HTTPException 403 ''Authorization failed: insufficient rights to access this asset''),
      [DbGet ''m1'' ''bob''])
   \<and> modify_asset_metadata sample_env [] ''m1'' \<lparr>mu_description = Some ''x'', mu_tags = None\<rparr> ''bob'' =
     (Inl (HTTPException 403 ''Authorization failed: insufficient rights to access this asset''),
      [DbGet ''m1'' ''bob''])
   \<and> remove_asset sample_env [] ''m1'' ''bob'' =
     (Inl (HTTPException 403 ''Authorization failed: insufficient rights to access this asset''),
      [DbGet ''m1'' ''bob''])
   \<and> retrieve_single_asset sample_env [] ''m1'' ''alice'' =
     (Inr sample_asset, [DbGet ''m1'' ''alice'', CreateTask NotifyLogicApp])
   \<and> fst (modify_asset_metadata sample_env [] ''m1'' \<lparr>mu_description = Some ''x'', mu_tags = None\<rparr>
           ''alice'') = Inr (sample_asset\<lparr>description := Some ''x'', updatedAt := ''t1''\<rparr>)
   \<and> fst (remove_asset sample_env [] ''m1'' ''alice'') = Inr ()"
proof -
  have b: "get_media_by_id sample_env [] ''m1'' ''bob'' = Inr (Some sample_asset)"
    by (simp add: sample_env_def)
  have a: "get_media_by_id sample_env [] ''m1'' ''alice'' = Inr (Some sample_asset)"
    by (simp add: sample_env_def)
  show ?thesis
    using strict_ownership_check [OF b, where modification_data = "\<lparr>mu_description = Some ''x'', mu_tags = None\<rparr>"]
      strict_ownership_check [OF a, where modification_data = "\<lparr>mu_description = Some ''x'', mu_tags = None\<rparr>"]
    by (simp add: sample_env_def sample_asset_def assemble_field_updates_def apply_field_updates_def)
qed

section \<open>Creation\<close>

text \<open>What the preview step adds to the world: at most one upload and log lines.\<close>

lemma store_preview_world:
  "store_preview e w t b a f = (p, w2) \<Longrightarrow>
   \<exists>xs. w2 = w @ xs \<and> (\<forall>r. DbCreate r \<notin> set xs) \<and> (\<forall>k. CreateTask k \<notin> set xs) \<and>
        (\<forall>u q. HttpPost u q \<notin> set xs)"
  by (auto simp: store_preview_def generate_thumbnail_def create_preview_image_def Let_def
      split: sum.splits prod.splits option.splits if_splits)

lemma upload_try_primary_fails:
  assumes "upload_file e w (content f) a (filename f) (content_type f) = Inl x"
  shows "\<exists>y xs. upload_new_asset_try e w f d l a = (Inl y, w @ xs) \<and> (\<forall>r. DbCreate r \<notin> set xs)"
  using assms
  by (auto simp: upload_new_asset_try_def Let_def split: sum.splits)

lemma upload_outer_failure:
  "upload_new_asset_try e w f d l a = (Inl y, w @ xs) \<Longrightarrow>
   \<exists>c m ys. upload_new_asset e w f d l a = (Inl (HTTPException c m), w @ xs @ ys) \<and>
      (\<forall>r. DbCreate r \<notin> set ys)"
  by (cases y) (auto simp: upload_new_asset_def)

lemma upload_primary_failure:
  assumes "upload_file e w (content f) a (filename f) (content_type f) = Inl x"
  shows "(\<exists>c m. fst (upload_new_asset e w f d l a) = Inl (HTTPException c m)) \<and>
         (\<forall>r. DbCreate r \<notin> set (emitted w (snd (upload_new_asset e w f d l a))))"
proof -
  from upload_try_primary_fails [OF assms] obtain y xs where
    t: "upload_new_asset_try e w f d l a = (Inl y, w @ xs)" and n: "\<forall>r. DbCreate r \<notin> set xs"
    by blast
  from upload_outer_failure [OF t] obtain c m ys where
    u: "upload_new_asset e w f d l a = (Inl (HTTPException c m), w @ xs @ ys)"
    and n': "\<forall>r. DbCreate r \<notin> set ys"
    by blast
  show ?thesis using u n n' by (simp add: emitted_append)
qed

lemma upload_try_created:
  assumes "upload_new_asset_try e w f d l a = (res, w')"
    and "DbCreate r \<in> set (emitted w w')"
  shows "\<exists>k u rest. upload_file e w (content f) a (filename f) (content_type f) = Inr (k, u) \<and>
           fileName r = k \<and> blobUrl r = u \<and>
           emitted w w' = BlobUpload (content f) a (filename f) (content_type f) # rest"
  using assms
  by (auto simp: upload_new_asset_try_def build_asset_record_def Let_def emitted_append
      emitted_self emitted_append2
      split: sum.splits prod.splits dest!: store_preview_world)

lemma upload_outer_world:
  "upload_new_asset_try e w f d l a = (res, w') \<Longrightarrow>
   \<exists>res' ys. upload_new_asset e w f d l a = (res', w' @ ys) \<and> (\<forall>r. DbCreate r \<notin> set ys)"
  by (auto simp: upload_new_asset_def split: sum.splits exn.splits)

lemma upload_try_extends:
  "\<exists>xs. snd (upload_new_asset_try e w f d l a) = w @ xs"
  by (auto simp: upload_new_asset_try_def Let_def
      split: sum.splits prod.splits dest!: store_preview_world)

lemma upload_created:
  assumes r: "DbCreate r \<in> set (emitted w (snd (upload_new_asset e w f d l a)))"
  shows "\<exists>res w'. upload_new_asset_try e w f d l a = (res, w') \<and>
           DbCreate r \<in> set (emitted w w') \<and>
           (\<exists>ys. emitted w (snd (upload_new_asset e w f d l a)) = emitted w w' @ ys)"
proof -
  obtain res w' where t: "upload_new_asset_try e w f d l a = (res, w')"
    by (cases "upload_new_asset_try e w f d l a")
  from upload_try_extends [of e w f d l a] t obtain xs where xs: "w' = w @ xs" by auto
  from upload_outer_world [OF t] obtain res' ys where
    u: "upload_new_asset e w f d l a = (res', w' @ ys)" and ys: "\<forall>r. DbCreate r \<notin> set ys"
    by blast
  from r u xs ys have "DbCreate r \<in> set (emitted w w')"
    by (auto simp: emitted_append)
  moreover from u xs have "emitted w (snd (upload_new_asset e w f d l a)) = emitted w w' @ ys"
    by (simp add: emitted_def)
  ultimately show ?thesis using t by blast
qed

text \<open>
  C2. When the write of the primary blob raises, the create fails with an HTTP error and
  the store is never asked to create a record. Whenever the create does ask the store to
  create a record, the primary write has succeeded before: it is the first thing the run
  did, and the record carries the storage key and URL that the write returned.
\<close>

theorem create_persists_after_primary_write:
  "(\<forall>x. upload_file e w (content f) a (filename f) (content_type f) = Inl x \<longrightarrow>
      (\<exists>c m. fst (upload_new_asset e w f d l a) = Inl (HTTPException c m)) \<and>
      (\<forall>r. DbCreate r \<notin> set (emitted w (snd (upload_new_asset e w f d l a)))))
   \<and> (\<forall>r. DbCreate r \<in> set (emitted w (snd (upload_new_asset e w f d l a))) \<longrightarrow>
      (\<exists>k u rest. upload_file e w (content f) a (filename f) (content_type f) = Inr (k, u) \<and>
         fileName r = k \<and> blobUrl r = u \<and>
         emitted w (snd (upload_new_asset e w f d l a)) =
           BlobUpload (content f) a (filename f) (content_type f) # rest))"
proof (intro conjI allI impI)
  fix x assume "upload_file e w (content f) a (filename f) (content_type f) = Inl x"
  then show "\<exists>c m. fst (upload_new_asset e w f d l a) = Inl (HTTPException c m)"
    using upload_primary_failure by blast
next
  fix x r assume "upload_file e w (content f) a (filename f) (content_type f) = Inl x"
  then show "DbCreate r \<notin> set (emitted w (snd (upload_new_asset e w f d l a)))"
    using upload_primary_failure by blast
next
  fix r assume r: "DbCreate r \<in> set (emitted w (snd (upload_new_asset e w f d l a)))"
  from upload_created [OF r] obtain res w' ys where
    t: "upload_new_asset_try e w f d l a = (res, w')" and c: "DbCreate r \<in> set (emitted w w')"
    and ys: "emitted w (snd (upload_new_asset e w f d l a)) = emitted w w' @ ys"
    by blast
  from upload_try_created [OF t c] obtain k u' rest where
    k: "upload_file e w (content f) a (filename f) (content_type f) = Inr (k, u')"
      "fileName r = k" "blobUrl r = u'"
      "emitted w w' = BlobUpload (content f) a (filename f) (content_type f) # rest"
    by blast
  from k(4) ys have "emitted w (snd (upload_new_asset e w f d l a)) =
      BlobUpload (content f) a (filename f) (content_type f) # (rest @ ys)"
    by simp
  with k show "\<exists>k u rest. upload_file e w (content f) a (filename f) (content_type f) = Inr (k, u) \<and>
         fileName r = k \<and> blobUrl r = u \<and>
         emitted w (snd (upload_new_asset e w f d l a)) =
           BlobUpload (content f) a (filename f) (content_type f) # rest"
    by blast
qed

lemma sample_png_run:
  "upload_new_asset sample_env [] sample_png None None ''alice'' =
     (Inr \<lparr>asset_id = ''m2'', userId = ''alice'', fileName = ''alice/dog.png'',
            originalFileName = Some ''dog.png'', mediaType = ''image'', fileSize = 3,
            mimeType = Some ''image/PNG'', blobUrl = ''https://blob/alice/dog.png'',
            thumbnailUrl = Some ''https://blob/alice/thumb_dog.png'', description = None,
            tags = None, uploadedAt = ''t1'', updatedAt = ''t1''\<rparr>,
      [BlobUpload [137, 80, 78] ''alice'' ''dog.png'' (Some ''image/PNG''),
       BlobUpload [137] ''alice'' ''thumb_dog.png'' (Some ''image/jpeg''),
       DbCreate \<lparr>asset_id = ''m2'', userId = ''alice'', fileName = ''alice/dog.png'',
            originalFileName = Some ''dog.png'', mediaType = ''image'', fileSize = 3,
            mimeType = Some ''image/PNG'', blobUrl = ''https://blob/alice/dog.png'',
            thumbnailUrl = Some ''https://blob/alice/thumb_dog.png'', description = None,
            tags = None, uploadedAt = ''t1'', updatedAt = ''t1''\<rparr>,
       CreateTask NotifyLogicApp])"
  by (simp add: upload_new_asset_def upload_new_asset_try_def build_asset_record_def
      store_preview_def generate_thumbnail_def create_preview_image_def
      determine_file_category_def verify_file_constraints_def parse_label_data_def
      sample_env_def sample_png_def lower_def lower_char_def Let_def)

lemma storage_down_run:
  "upload_new_asset storage_down_env [] sample_png None None ''alice'' =
     (Inl (HTTPException 500 ''Upload operation failed: storage down''),
      [BlobUpload [137, 80, 78] ''alice'' ''dog.png'' (Some ''image/PNG''),
       Log ERROR ''Asset upload failed: '' (Some (PyException OtherError ''storage down''))])"
  by (simp add: upload_new_asset_def upload_new_asset_try_def
      determine_file_category_def verify_file_constraints_def parse_label_data_def
      storage_down_env_def sample_env_def sample_png_def lower_def lower_char_def status_defs
      Let_def)

theorem create_persists_after_primary_write_witness:
  "upload_file storage_down_env [] (content sample_png) ''alice'' (filename sample_png)
      (content_type sample_png) = Inl (PyException OtherError ''storage down'')
   \<and> fst (upload_new_asset storage_down_env [] sample_png None None ''alice'') =
       Inl (HTTPException 500 ''Upload operation failed: storage down'')
   \<and> emitted [] (snd (upload_new_asset storage_down_env [] sample_png None None ''alice'')) =
       [BlobUpload [137, 80, 78] ''alice'' ''dog.png'' (Some ''image/PNG''),
        Log ERROR ''Asset upload failed: '' (Some (PyException OtherError ''storage down''))]
   \<and> DbCreate (sample_asset\<lparr>asset_id := ''m2'', fileName := ''alice/dog.png'',
         originalFileName := Some ''dog.png'', mimeType := Some ''image/PNG'',
         blobUrl := ''https://blob/alice/dog.png'',
         thumbnailUrl := Some ''https://blob/alice/thumb_dog.png'', description := None,
         tags := None, uploadedAt := ''t1'', updatedAt := ''t1''\<rparr>)
       \<in> set (emitted [] (snd (upload_new_asset sample_env [] sample_png None None ''alice'')))
   \<and> upload_file sample_env [] (content sample_png) ''alice'' (filename sample_png)
        (content_type sample_png) = Inr (''alice/dog.png'', ''https://blob/alice/dog.png'')"
  using create_persists_after_primary_write
    [of storage_down_env "[]" sample_png "''alice''" None None]
    create_persists_after_primary_write
    [of sample_env "[]" sample_png "''alice''" None None]
  by (simp add: storage_down_run sample_png_run emitted_def)
    (simp add: storage_down_env_def sample_env_def sample_png_def sample_asset_def)

lemma upload_outer_logs:
  "upload_new_asset_try e w f d l a = (res, w') \<Longrightarrow>
   \<exists>res' ys. upload_new_asset e w f d l a = (res', w' @ ys) \<and>
      (\<forall>b a' n c. BlobUpload b a' n c \<notin> set ys)"
  by (auto simp: upload_new_asset_def split: sum.splits exn.splits)

lemma upload_try_record:
  assumes "upload_new_asset_try e w f d l a = (res, w')"
    and "DbCreate r \<in> set (emitted w w')"
  shows "\<exists>t n ls k u p w2. determine_file_category e f = Inr t \<and>
           verify_file_constraints e f None = Inr n \<and> parse_label_data e l = Inr ls \<and>
           upload_file e w (content f) a (filename f) (content_type f) = Inr (k, u) \<and>
           store_preview e (w @ [BlobUpload (content f) a (filename f) (content_type f)]) t
             (content f) a f = (p, w2) \<and>
           r = build_asset_record e w2 f a t n k u p d ls"
  using assms
  by (auto simp: upload_new_asset_try_def Let_def emitted_append emitted_self emitted_append2
      split: sum.splits prod.splits dest!: store_preview_world)

lemma upload_try_blob:
  assumes "upload_new_asset_try e w f d l a = (res, w')"
    and "BlobUpload b a' n c \<in> set (emitted w w')"
  shows "(\<exists>t. determine_file_category e f = Inr t) \<and>
         (\<exists>n. verify_file_constraints e f None = Inr n)"
  using assms
  by (auto simp: upload_new_asset_try_def Let_def emitted_append emitted_self emitted_append2
      split: sum.splits prod.splits)

lemma verify_ok_size:
  "verify_file_constraints e f None = Inr n \<Longrightarrow> int (length (content f)) \<le> max_file_size_bytes e"
  by (auto simp: verify_file_constraints_def Let_def split: if_splits)

lemma determine_values:
  "determine_file_category e f = Inr t \<Longrightarrow> t = ''image'' \<or> t = ''video''"
  by (auto simp: determine_file_category_def Let_def split: option.splits if_splits)

lemma store_preview_Some:
  "store_preview e w t b a f = (Some url, w2) \<Longrightarrow>
   t = ''image'' \<and>
   (\<exists>pb kp. pil_thumbnail e b (300, 300) = Inr pb \<and> pb \<noteq> [] \<and>
      upload_file e w pb a (''thumb_'' @ filename f) (Some ''image/jpeg'') = Inr (kp, url))"
  by (auto simp: store_preview_def generate_thumbnail_def create_preview_image_def Let_def
      split: sum.splits prod.splits option.splits if_splits)

lemma unsupported_type_rejected:
  assumes "content_type f = Some ct" and "lower ct \<notin> set (allowed_image_types_list e)"
    and "lower ct \<notin> set (allowed_video_types_list e)"
  shows "\<exists>m. upload_new_asset e w f d l a = (Inl (HTTPException 400 m), w)"
  using assms
  by (simp add: upload_new_asset_def upload_new_asset_try_def determine_file_category_def
      Let_def status_defs)

lemma oversized_rejected:
  assumes "determine_file_category e f = Inr t"
    and "max_file_size_bytes e < int (length (content f))"
  shows "upload_new_asset e w f d l a =
           (Inl (HTTPException 413 ''File size surpasses maximum limit''), w)"
  using assms
  by (simp add: upload_new_asset_def upload_new_asset_try_def verify_file_constraints_def
      Let_def status_defs)

lemma storage_write_validated:
  assumes b: "BlobUpload b a' n c \<in> set (emitted w (snd (upload_new_asset e w f d l a)))"
  shows "(\<exists>t. determine_file_category e f = Inr t) \<and>
         int (length (content f)) \<le> max_file_size_bytes e"
proof -
  obtain res w' where t: "upload_new_asset_try e w f d l a = (res, w')"
    by (cases "upload_new_asset_try e w f d l a")
  from upload_try_extends [of e w f d l a] t obtain xs where xs: "w' = w @ xs" by auto
  from upload_outer_logs [OF t] obtain res' ys where
    u: "upload_new_asset e w f d l a = (res', w' @ ys)"
    and ys: "\<forall>b a' n c. BlobUpload b a' n c \<notin> set ys"
    by blast
  from b u xs ys have "BlobUpload b a' n c \<in> set (emitted w w')"
    by (auto simp: emitted_append)
  from upload_try_blob [OF t this] verify_ok_size show ?thesis
    by blast
qed

text \<open>
  C4. A declared content type in neither allow-list fails the create with 400, and a stream
  longer than the configured maximum fails it with 413; in both cases the world is the one
  the create started in, so nothing was written or called. Whatever upload to storage a
  create makes, the classification and the size check have passed before.
\<close>

theorem validation_precedes_storage_write:
  "(\<forall>ct. content_type f = Some ct \<and> lower ct \<notin> set (allowed_image_types_list e) \<and>
          lower ct \<notin> set (allowed_video_types_list e) \<longrightarrow>
      (\<exists>m. upload_new_asset e w f d l a = (Inl (HTTPException 400 m), w)))
   \<and> ((\<exists>t. determine_file_category e f = Inr t) \<and>
        max_file_size_bytes e < int (length (content f)) \<longrightarrow>
      upload_new_asset e w f d l a =
        (Inl (HTTPException 413 ''File size surpasses maximum limit''), w))
   \<and> (\<forall>b a' n c. BlobUpload b a' n c \<in> set (emitted w (snd (upload_new_asset e w f d l a))) \<longrightarrow>
        (\<exists>t. determine_file_category e f = Inr t) \<and>
        int (length (content f)) \<le> max_file_size_bytes e)"
  using unsupported_type_rejected [of f _ e w d l a] oversized_rejected [of e f _ w d l a]
    storage_write_validated [of _ _ _ _ w e f d l a]
  by blast

lemma sample_png_classified:
  "determine_file_category sample_env (sample_png\<lparr>content := bs\<rparr>) = Inr ''image''"
  by (simp add: determine_file_category_def sample_env_def sample_png_def lower_def
      lower_char_def Let_def)

theorem validation_precedes_storage_write_witness:
  "(content_type (sample_png\<lparr>content_type := Some ''application/pdf''\<rparr>) = Some ''application/pdf''
     \<and> lower ''application/pdf'' \<notin> set (allowed_image_types_list sample_env)
     \<and> lower ''application/pdf'' \<notin> set (allowed_video_types_list sample_env))
   \<and> (\<exists>m. upload_new_asset sample_env [] (sample_png\<lparr>content_type := Some ''application/pdf''\<rparr>)
        None None ''alice'' = (Inl (HTTPException 400 m), []))
   \<and> ((\<exists>t. determine_file_category sample_env (sample_png\<lparr>content := [1, 2, 3, 4, 5]\<rparr>) = Inr t)
     \<and> max_file_size_bytes sample_env < int (length (content (sample_png\<lparr>content := [1, 2, 3, 4, 5]\<rparr>))))
   \<and> upload_new_asset sample_env [] (sample_png\<lparr>content := [1, 2, 3, 4, 5]\<rparr>) None None ''alice'' =
       (Inl (HTTPException 413 ''File size surpasses maximum limit''), [])
   \<and> BlobUpload [137, 80, 78] ''alice'' ''dog.png'' (Some ''image/PNG'')
       \<in> set (emitted [] (snd (upload_new_asset sample_env [] sample_png None None ''alice'')))
   \<and> int (length (content sample_png)) \<le> max_file_size_bytes sample_env"
proof -
  have h1: "content_type (sample_png\<lparr>content_type := Some ''application/pdf''\<rparr>) = Some ''application/pdf''
     \<and> lower ''application/pdf'' \<notin> set (allowed_image_types_list sample_env)
     \<and> lower ''application/pdf'' \<notin> set (allowed_video_types_list sample_env)"
    by (simp add: sample_env_def lower_def lower_char_def)
  have h2: "(\<exists>t. determine_file_category sample_env (sample_png\<lparr>content := [1, 2, 3, 4, 5]\<rparr>) = Inr t)
     \<and> max_file_size_bytes sample_env < int (length (content (sample_png\<lparr>content := [1, 2, 3, 4, 5]\<rparr>)))"
    by (simp add: sample_png_classified) (simp add: sample_env_def)
  have h3: "BlobUpload [137, 80, 78] ''alice'' ''dog.png'' (Some ''image/PNG'')
       \<in> set (emitted [] (snd (upload_new_asset sample_env [] sample_png None None ''alice'')))"
    by (simp add: sample_png_run emitted_def)
  note t1 = validation_precedes_storage_write
      [of "sample_png\<lparr>content_type := Some ''application/pdf''\<rparr>" sample_env "[]" None None "''alice''"]
  note t2 = validation_precedes_storage_write
      [of "sample_png\<lparr>content := [1, 2, 3, 4, 5]\<rparr>" sample_env "[]" None None "''alice''"]
  note t3 = validation_precedes_storage_write [of sample_png sample_env "[]" None None "''alice''"]
  from t1 h1 have c1: "\<exists>m. upload_new_asset sample_env []
        (sample_png\<lparr>content_type := Some ''application/pdf''\<rparr>) None None ''alice'' =
        (Inl (HTTPException 400 m), [])"
    by blast
  from t2 h2 have c2: "upload_new_asset sample_env [] (sample_png\<lparr>content := [1, 2, 3, 4, 5]\<rparr>)
        None None ''alice'' = (Inl (HTTPException 413 ''File size surpasses maximum limit''), [])"
    by blast
  from t3 h3 have c3: "int (length (content sample_png)) \<le> max_file_size_bytes sample_env"
    by blast
  from h1 h2 h3 c1 c2 c3 show ?thesis
    by blast
qed

section \<open>Previews at creation\<close>

lemma create_preview_image_failure:
  "pil_thumbnail e b dim = Inl m \<Longrightarrow>
   create_preview_image e w b dim =
     (None, w @ [Log ERROR ''Preview generation failed: '' (Some (PyException OtherError m))])"
  by (simp add: create_preview_image_def)

lemma upload_after_preview:
  assumes "determine_file_category e f = Inr t"
    and "verify_file_constraints e f None = Inr n"
    and "parse_label_data e l = Inr ls"
    and "upload_file e w (content f) a (filename f) (content_type f) = Inr (k, u)"
    and "store_preview e (w @ [BlobUpload (content f) a (filename f) (content_type f)]) t
           (content f) a f = (p, w2)"
    and "create_media e w2 (build_asset_record e w2 f a t n k u p d ls) = Inr r"
  shows "upload_new_asset e w f d l a =
           (Inr r, w2 @ [DbCreate (build_asset_record e w2 f a t n k u p d ls),
                         CreateTask NotifyLogicApp])"
  using assms
  by (simp add: upload_new_asset_def upload_new_asset_try_def Let_def)

lemma store_preview_decoder_fails:
  "pil_thumbnail e b (300, 300) = Inl m \<Longrightarrow>
   store_preview e w ''image'' b a f =
     (None, w @ [Log ERROR ''Preview generation failed: '' (Some (PyException OtherError m))])"
  by (simp add: store_preview_def generate_thumbnail_def create_preview_image_def)

lemma store_preview_write_fails:
  "pil_thumbnail e b (300, 300) = Inr pb \<Longrightarrow> pb \<noteq> [] \<Longrightarrow>
   upload_file e w pb a (''thumb_'' @ filename f) (Some ''image/jpeg'') = Inl x \<Longrightarrow>
   store_preview e w ''image'' b a f =
     (None, w @ [BlobUpload pb a (''thumb_'' @ filename f) (Some ''image/jpeg''),
                 Log WARNING ''Preview generation failed: '' (Some x)])"
  by (simp add: store_preview_def generate_thumbnail_def create_preview_image_def)

text \<open>
  C7. Take the create of an image whose checks pass and whose primary write succeeds. When
  the preview deriver fails, it returns no result (and logs), and when the write of the
  derived preview fails, the failure is logged: in both cases the record handed to the
  store has a null preview key, and the create returns what the store returns for it,
  succeeding whenever the store does.
\<close>

theorem preview_failure_not_fatal:
  assumes "determine_file_category e f = Inr ''image''"
    and "verify_file_constraints e f None = Inr n"
    and "parse_label_data e l = Inr ls"
    and "upload_file e w (content f) a (filename f) (content_type f) = Inr (k, u)"
  shows "(\<forall>m w2 r. pil_thumbnail e (content f) (300, 300) = Inl m \<and>
            w2 = w @ [BlobUpload (content f) a (filename f) (content_type f),
                      Log ERROR ''Preview generation failed: ''
                        (Some (PyException OtherError m))] \<and>
            create_media e w2 (build_asset_record e w2 f a ''image'' n k u None d ls) = Inr r \<longrightarrow>
            fst (create_preview_image e w (content f) (300, 300)) = None \<and>
            upload_new_asset e w f d l a =
              (Inr r, w2 @ [DbCreate (build_asset_record e w2 f a ''image'' n k u None d ls),
                            CreateTask NotifyLogicApp]))
       \<and> (\<forall>pb x w2 r. pil_thumbnail e (content f) (300, 300) = Inr pb \<and> pb \<noteq> [] \<and>
            upload_file e (w @ [BlobUpload (content f) a (filename f) (content_type f)]) pb a
              (''thumb_'' @ filename f) (Some ''image/jpeg'') = Inl x \<and>
            w2 = w @ [BlobUpload (content f) a (filename f) (content_type f),
                      BlobUpload pb a (''thumb_'' @ filename f) (Some ''image/jpeg''),
                      Log WARNING ''Preview generation failed: '' (Some x)] \<and>
            create_media e w2 (build_asset_record e w2 f a ''image'' n k u None d ls) = Inr r \<longrightarrow>
            upload_new_asset e w f d l a =
              (Inr r, w2 @ [DbCreate (build_asset_record e w2 f a ''image'' n k u None d ls),
                            CreateTask NotifyLogicApp]))
       \<and> (\<forall>w2. thumbnailUrl (build_asset_record e w2 f a ''image'' n k u None d ls) = None)"
proof -
  have a: "pil_thumbnail e (content f) (300, 300) = Inl m \<Longrightarrow>
      w2 = w @ [BlobUpload (content f) a (filename f) (content_type f),
                Log ERROR ''Preview generation failed: '' (Some (PyException OtherError m))] \<Longrightarrow>
      create_media e w2 (build_asset_record e w2 f a ''image'' n k u None d ls) = Inr r \<Longrightarrow>
      fst (create_preview_image e w (content f) (300, 300)) = None \<and>
      upload_new_asset e w f d l a =
        (Inr r, w2 @ [DbCreate (build_asset_record e w2 f a ''image'' n k u None d ls),
                      CreateTask NotifyLogicApp])" for m w2 r
    using upload_after_preview [OF assms, of None w2 d r]
      store_preview_decoder_fails [of e "content f" m
        "w @ [BlobUpload (content f) a (filename f) (content_type f)]" a f]
    by (simp add: create_preview_image_failure)
  have b: "pil_thumbnail e (content f) (300, 300) = Inr pb \<Longrightarrow> pb \<noteq> [] \<Longrightarrow>
      upload_file e (w @ [BlobUpload (content f) a (filename f) (content_type f)]) pb a
        (''thumb_'' @ filename f) (Some ''image/jpeg'') = Inl x \<Longrightarrow>
      w2 = w @ [BlobUpload (content f) a (filename f) (content_type f),
                BlobUpload pb a (''thumb_'' @ filename f) (Some ''image/jpeg''),
                Log WARNING ''Preview generation failed: '' (Some x)] \<Longrightarrow>
      create_media e w2 (build_asset_record e w2 f a ''image'' n k u None d ls) = Inr r \<Longrightarrow>
      upload_new_asset e w f d l a =
        (Inr r, w2 @ [DbCreate (build_asset_record e w2 f a ''image'' n k u None d ls),
                      CreateTask NotifyLogicApp])" for pb x w2 r
    using upload_after_preview [OF assms, of None w2 d r]
      store_preview_write_fails [of e "content f" pb
        "w @ [BlobUpload (content f) a (filename f) (content_type f)]" a f x]
    by simp
  have c: "thumbnailUrl (build_asset_record e w2 f a ''image'' n k u None d ls) = None" for w2
    by (simp add: build_asset_record_def Let_def)
  from a b c show ?thesis by blast
qed

text \<open>
  C8. The record that a create hands to the store has a preview key only if the media
  category is \<open>image\<close>, the deriver returned bytes and the write of those bytes succeeded,
  the key being the URL that write returned; the record of a video has none.
\<close>

theorem preview_key_only_for_stored_image_preview:
  assumes "DbCreate r \<in> set (emitted w (snd (upload_new_asset e w f d l a)))"
  shows "(mediaType r = ''image'' \<or> mediaType r = ''video'')
       \<and> (\<forall>url. thumbnailUrl r = Some url \<longrightarrow>
            mediaType r = ''image'' \<and>
            (\<exists>pb kp. pil_thumbnail e (content f) (300, 300) = Inr pb \<and> pb \<noteq> [] \<and>
               upload_file e (w @ [BlobUpload (content f) a (filename f) (content_type f)]) pb a
                 (''thumb_'' @ filename f) (Some ''image/jpeg'') = Inr (kp, url)))
       \<and> (mediaType r = ''video'' \<longrightarrow> thumbnailUrl r = None)"
proof -
  from upload_created [OF assms] obtain res w' where
    t: "upload_new_asset_try e w f d l a = (res, w')" and c: "DbCreate r \<in> set (emitted w w')"
    by blast
  from upload_try_record [OF t c] obtain t' n ls k u p w2 where
    dt: "determine_file_category e f = Inr t'"
    and sp: "store_preview e (w @ [BlobUpload (content f) a (filename f) (content_type f)]) t'
               (content f) a f = (p, w2)"
    and r: "r = build_asset_record e w2 f a t' n k u p d ls"
    by blast
  from r have m: "mediaType r = t'" and th: "thumbnailUrl r = p"
    by (simp_all add: build_asset_record_def Let_def)
  from determine_values [OF dt] m have 1: "mediaType r = ''image'' \<or> mediaType r = ''video''"
    by simp
  have 2: "thumbnailUrl r = Some url \<Longrightarrow>
            mediaType r = ''image'' \<and>
            (\<exists>pb kp. pil_thumbnail e (content f) (300, 300) = Inr pb \<and> pb \<noteq> [] \<and>
               upload_file e (w @ [BlobUpload (content f) a (filename f) (content_type f)]) pb a
                 (''thumb_'' @ filename f) (Some ''image/jpeg'') = Inr (kp, url))" for url
    using store_preview_Some [of e _ t' "content f" a f url w2] sp th m by simp
  have 3: "mediaType r = ''video'' \<Longrightarrow> thumbnailUrl r = None"
    using 2 by (cases "thumbnailUrl r") auto
  from 1 2 3 show ?thesis by blast
qed

lemma sample_png_checks:
  "determine_file_category sample_env sample_png = Inr ''image''"
  "verify_file_constraints sample_env sample_png None = Inr 3"
  "parse_label_data sample_env None = Inr None"
  by (simp_all add: determine_file_category_def verify_file_constraints_def parse_label_data_def
      sample_env_def sample_png_def lower_def lower_char_def Let_def)

lemma variant_png_checks:
  "determine_file_category decoder_down_env sample_png = Inr ''image''"
  "verify_file_constraints decoder_down_env sample_png None = Inr 3"
  "parse_label_data decoder_down_env None = Inr None"
  "determine_file_category preview_write_down_env sample_png = Inr ''image''"
  "verify_file_constraints preview_write_down_env sample_png None = Inr 3"
  "parse_label_data preview_write_down_env None = Inr None"
  by (simp_all add: determine_file_category_def verify_file_constraints_def parse_label_data_def
      decoder_down_env_def preview_write_down_env_def sample_env_def sample_png_def lower_def
      lower_char_def Let_def)

theorem preview_failure_not_fatal_witness:
  "determine_file_category decoder_down_env sample_png = Inr ''image''
   \<and> verify_file_constraints decoder_down_env sample_png None = Inr 3
   \<and> parse_label_data decoder_down_env None = Inr None
   \<and> upload_file decoder_down_env [] (content sample_png) ''alice'' (filename sample_png)
        (content_type sample_png) = Inr (''alice/dog.png'', ''https://blob/alice/dog.png'')
   \<and> pil_thumbnail decoder_down_env (content sample_png) (300, 300) =
        Inl ''cannot identify image file''
   \<and> fst (upload_new_asset decoder_down_env [] sample_png None None ''alice'') =
        Inr \<lparr>asset_id = ''m2'', userId = ''alice'', fileName = ''alice/dog.png'',
             originalFileName = Some ''dog.png'', mediaType = ''image'', fileSize = 3,
             mimeType = Some ''image/PNG'', blobUrl = ''https://blob/alice/dog.png'',
             thumbnailUrl = None, description = None, tags = None, uploadedAt = ''t1'',
             updatedAt = ''t1''\<rparr>
   \<and> pil_thumbnail preview_write_down_env (content sample_png) (300, 300) = Inr [137]
   \<and> upload_file preview_write_down_env
        ([] @ [BlobUpload (content sample_png) ''alice'' (filename sample_png)
                 (content_type sample_png)])
        [137] ''alice'' (''thumb_'' @ filename sample_png) (Some ''image/jpeg'') =
        Inl (PyException OtherError ''storage down'')
   \<and> fst (upload_new_asset preview_write_down_env [] sample_png None None ''alice'') =
        Inr \<lparr>asset_id = ''m2'', userId = ''alice'', fileName = ''alice/dog.png'',
             originalFileName = Some ''dog.png'', mediaType = ''image'', fileSize = 3,
             mimeType = Some ''image/PNG'', blobUrl = ''https://blob/alice/dog.png'',
             thumbnailUrl = None, description = None, tags = None, uploadedAt = ''t1'',
             updatedAt = ''t1''\<rparr>"
proof -
  let ?k = "''alice/dog.png''" and ?u = "''https://blob/alice/dog.png''"
  let ?b = "BlobUpload (content sample_png) ''alice'' (filename sample_png) (content_type sample_png)"
  have h1: "determine_file_category decoder_down_env sample_png = Inr ''image''"
    and h2: "verify_file_constraints decoder_down_env sample_png None = Inr 3"
    and h3: "parse_label_data decoder_down_env None = Inr None"
    and g1: "determine_file_category preview_write_down_env sample_png = Inr ''image''"
    and g2: "verify_file_constraints preview_write_down_env sample_png None = Inr 3"
    and g3: "parse_label_data preview_write_down_env None = Inr None"
    by (simp_all add: variant_png_checks)
  have h4: "upload_file decoder_down_env [] (content sample_png) ''alice'' (filename sample_png)
        (content_type sample_png) = Inr (?k, ?u)"
    and g4: "upload_file preview_write_down_env [] (content sample_png) ''alice''
        (filename sample_png) (content_type sample_png) = Inr (?k, ?u)"
    by (simp_all add: decoder_down_env_def preview_write_down_env_def sample_env_def sample_png_def)
  have p: "pil_thumbnail decoder_down_env (content sample_png) (300, 300) =
        Inl ''cannot identify image file''"
    by (simp add: decoder_down_env_def)
  have q: "pil_thumbnail preview_write_down_env (content sample_png) (300, 300) = Inr [137]"
    by (simp add: preview_write_down_env_def sample_env_def sample_png_def)
  have q': "upload_file preview_write_down_env ([] @ [?b])
        [137] ''alice'' (''thumb_'' @ filename sample_png) (Some ''image/jpeg'') =
        Inl (PyException OtherError ''storage down'')"
    by (simp add: preview_write_down_env_def sample_env_def sample_png_def)
  have c1: "create_media decoder_down_env w2 r = Inr r" for w2 r
    by (simp add: decoder_down_env_def sample_env_def)
  have c2: "create_media preview_write_down_env w2 r = Inr r" for w2 r
    by (simp add: preview_write_down_env_def sample_env_def)
  note T1 = preview_failure_not_fatal [OF h1 h2 h3 h4, where d = None, THEN conjunct1, rule_format,
      OF conjI [OF p conjI [OF refl c1]]]
  note T2 = preview_failure_not_fatal [OF g1 g2 g3 g4, where d = None, THEN conjunct2,
      THEN conjunct1, rule_format,
      OF conjI [OF q conjI [OF _ conjI [OF q' conjI [OF refl c2]]]]]
  have r1: "fst (upload_new_asset decoder_down_env [] sample_png None None ''alice'') =
        Inr \<lparr>asset_id = ''m2'', userId = ''alice'', fileName = ''alice/dog.png'',
             originalFileName = Some ''dog.png'', mediaType = ''image'', fileSize = 3,
             mimeType = Some ''image/PNG'', blobUrl = ''https://blob/alice/dog.png'',
             thumbnailUrl = None, description = None, tags = None, uploadedAt = ''t1'',
             updatedAt = ''t1''\<rparr>"
    using T1 by (simp add: build_asset_record_def decoder_down_env_def sample_env_def
        sample_png_def Let_def)
  have r2: "fst (upload_new_asset preview_write_down_env [] sample_png None None ''alice'') =
        Inr \<lparr>asset_id = ''m2'', userId = ''alice'', fileName = ''alice/dog.png'',
             originalFileName = Some ''dog.png'', mediaType = ''image'', fileSize = 3,
             mimeType = Some ''image/PNG'', blobUrl = ''https://blob/alice/dog.png'',
             thumbnailUrl = None, description = None, tags = None, uploadedAt = ''t1'',
             updatedAt = ''t1''\<rparr>"
    using T2 by (simp add: build_asset_record_def preview_write_down_env_def sample_env_def
        sample_png_def Let_def)
  from h1 h2 h3 h4 p q q' r1 r2 show ?thesis by blast
qed

theorem preview_key_only_for_stored_image_preview_witness:
  "DbCreate \<lparr>asset_id = ''m2'', userId = ''alice'', fileName = ''alice/dog.png'',
            originalFileName = Some ''dog.png'', mediaType = ''image'', fileSize = 3,
            mimeType = Some ''image/PNG'', blobUrl = ''https://blob/alice/dog.png'',
            thumbnailUrl = Some ''https://blob/alice/thumb_dog.png'', description = None,
            tags = None, uploadedAt = ''t1'', updatedAt = ''t1''\<rparr>
     \<in> set (emitted [] (snd (upload_new_asset sample_env [] sample_png None None ''alice'')))
   \<and> (\<exists>pb kp. pil_thumbnail sample_env (content sample_png) (300, 300) = Inr pb \<and> pb \<noteq> [] \<and>
         upload_file sample_env
           ([] @ [BlobUpload (content sample_png) ''alice'' (filename sample_png)
                    (content_type sample_png)])
           pb ''alice'' (''thumb_'' @ filename sample_png) (Some ''image/jpeg'') =
           Inr (kp, ''https://blob/alice/thumb_dog.png''))
   \<and> DbCreate \<lparr>asset_id = ''m2'', userId = ''alice'', fileName = ''alice/dog.mp4'',
            originalFileName = Some ''dog.mp4'', mediaType = ''video'', fileSize = 2,
            mimeType = Some ''video/mp4'', blobUrl = ''https://blob/alice/dog.mp4'',
            thumbnailUrl = None, description = None,
            tags = None, uploadedAt = ''t1'', updatedAt = ''t1''\<rparr>
     \<in> set (emitted [] (snd (upload_new_asset sample_env [] sample_mp4 None None ''alice'')))"
proof -
  let ?r = "\<lparr>asset_id = ''m2'', userId = ''alice'', fileName = ''alice/dog.png'',
            originalFileName = Some ''dog.png'', mediaType = ''image'', fileSize = 3,
            mimeType = Some ''image/PNG'', blobUrl = ''https://blob/alice/dog.png'',
            thumbnailUrl = Some ''https://blob/alice/thumb_dog.png'', description = None,
            tags = None, uploadedAt = ''t1'', updatedAt = ''t1''\<rparr>"
  have h: "DbCreate ?r
     \<in> set (emitted [] (snd (upload_new_asset sample_env [] sample_png None None ''alice'')))"
    by (simp add: sample_png_run emitted_def)
  have v: "DbCreate \<lparr>asset_id = ''m2'', userId = ''alice'', fileName = ''alice/dog.mp4'',
            originalFileName = Some ''dog.mp4'', mediaType = ''video'', fileSize = 2,
            mimeType = Some ''video/mp4'', blobUrl = ''https://blob/alice/dog.mp4'',
            thumbnailUrl = None, description = None,
            tags = None, uploadedAt = ''t1'', updatedAt = ''t1''\<rparr>
     \<in> set (emitted [] (snd (upload_new_asset sample_env [] sample_mp4 None None ''alice'')))"
    by (simp add: upload_new_asset_def upload_new_asset_try_def build_asset_record_def
      store_preview_def determine_file_category_def verify_file_constraints_def
      parse_label_data_def sample_env_def sample_mp4_def lower_def lower_char_def Let_def
      emitted_def)
  have u: "thumbnailUrl ?r = Some ''https://blob/alice/thumb_dog.png''"
    by simp
  from preview_key_only_for_stored_image_preview [OF h, THEN conjunct2, THEN conjunct1,
      rule_format, OF u]
  have "\<exists>pb kp. pil_thumbnail sample_env (content sample_png) (300, 300) = Inr pb \<and> pb \<noteq> [] \<and>
         upload_file sample_env
           ([] @ [BlobUpload (content sample_png) ''alice'' (filename sample_png)
                    (content_type sample_png)])
           pb ''alice'' (''thumb_'' @ filename sample_png) (Some ''image/jpeg'') =
           Inr (kp, ''https://blob/alice/thumb_dog.png'')"
    by blast
  with h v show ?thesis by blast
qed

section \<open>Deletion\<close>

lemma guard_passes:
  "get_media_by_id e w i a = Inr (Some doc) \<Longrightarrow> userId doc = a \<Longrightarrow>
   retrieve_and_confirm_asset_ownership e w i a = (Inr doc, w @ [DbGet i a])"
  by (simp add: retrieve_and_confirm_asset_ownership_def Let_def)

lemma remove_primary_failure:
  assumes "get_media_by_id e w i a = Inr (Some doc)" and "userId doc = a"
    and "delete_file e (w @ [DbGet i a]) (fileName doc) = Inl x"
  shows "(\<exists>c m. fst (remove_asset e w i a) = Inl (HTTPException c m)) \<and>
         (\<forall>i' a'. DbDelete i' a' \<notin> set (emitted w (snd (remove_asset e w i a))))"
  using assms
  by (cases x)
    (simp_all add: remove_asset_def remove_asset_try_def guard_passes Let_def emitted_def)

lemma remove_preview_failure:
  assumes "get_media_by_id e w i a = Inr (Some doc)" and "userId doc = a"
    and "delete_file e (w @ [DbGet i a]) (fileName doc) = Inr ()"
    and "w2 = w @ [DbGet i a, BlobDelete (fileName doc)]"
    and "parse_preview_storage_identifier w2 doc = (Some k, w2)" and "k \<noteq> []"
    and "delete_file e w2 k = Inl x"
    and "w4 = w2 @ [BlobDelete k, Log WARNING ''Preview deletion failed: '' (Some x)]"
  shows "(delete_media e w4 i a = Inr () \<longrightarrow>
            remove_asset e w i a = (Inr (), w4 @ [DbDelete i a, CreateTask NotifyLogicApp])) \<and>
         (\<exists>rest. emitted w (snd (remove_asset e w i a)) =
            [DbGet i a, BlobDelete (fileName doc), BlobDelete k,
             Log WARNING ''Preview deletion failed: '' (Some x), DbDelete i a] @ rest)"
  using assms
  by (auto simp: remove_asset_def remove_asset_try_def guard_passes delete_preview_def Let_def
      emitted_def split: sum.splits exn.splits)

text \<open>
  C3. Take the delete of an asset that the caller owns. When the deletion of the primary
  blob raises, the delete fails with an HTTP error and the store is never asked to delete
  the record. When the primary blob is deleted and the deletion of the preview blob raises
  (a missing blob included), the failure is logged as a warning, the store is then asked to
  delete the record, and the delete succeeds when the store does.
\<close>

theorem delete_failure_policy:
  assumes "get_media_by_id e w i a = Inr (Some doc)" and "userId doc = a"
  shows "(\<forall>x. delete_file e (w @ [DbGet i a]) (fileName doc) = Inl x \<longrightarrow>
            (\<exists>c m. fst (remove_asset e w i a) = Inl (HTTPException c m)) \<and>
            (\<forall>i' a'. DbDelete i' a' \<notin> set (emitted w (snd (remove_asset e w i a)))))
       \<and> (\<forall>k x w2 w4. delete_file e (w @ [DbGet i a]) (fileName doc) = Inr () \<and>
            w2 = w @ [DbGet i a, BlobDelete (fileName doc)] \<and>
            parse_preview_storage_identifier w2 doc = (Some k, w2) \<and> k \<noteq> [] \<and>
            delete_file e w2 k = Inl x \<and>
            w4 = w2 @ [BlobDelete k, Log WARNING ''Preview deletion failed: '' (Some x)] \<longrightarrow>
            (delete_media e w4 i a = Inr () \<longrightarrow>
               remove_asset e w i a = (Inr (), w4 @ [DbDelete i a, CreateTask NotifyLogicApp])) \<and>
            (\<exists>rest. emitted w (snd (remove_asset e w i a)) =
               [DbGet i a, BlobDelete (fileName doc), BlobDelete k,
                Log WARNING ''Preview deletion failed: '' (Some x), DbDelete i a] @ rest))"
  using remove_primary_failure [OF assms] remove_preview_failure [OF assms]
  by blast

theorem delete_failure_policy_witness:
  "get_media_by_id primary_delete_down_env [] ''m1'' ''alice'' = Inr (Some sample_asset)
   \<and> userId sample_asset = ''alice''
   \<and> delete_file primary_delete_down_env ([] @ [DbGet ''m1'' ''alice'']) (fileName sample_asset) =
       Inl (PyException OtherError ''storage down'')
   \<and> (\<exists>c m. fst (remove_asset primary_delete_down_env [] ''m1'' ''alice'') = Inl (HTTPException c m))
   \<and> DbDelete ''m1'' ''alice''
       \<notin> set (emitted [] (snd (remove_asset primary_delete_down_env [] ''m1'' ''alice'')))
   \<and> get_media_by_id preview_gone_env [] ''m1'' ''alice'' = Inr (Some sample_asset)
   \<and> delete_file preview_gone_env ([] @ [DbGet ''m1'' ''alice'']) (fileName sample_asset) = Inr ()
   \<and> parse_preview_storage_identifier
         ([] @ [DbGet ''m1'' ''alice'', BlobDelete (fileName sample_asset)]) sample_asset =
       (Some ''alice/thumb_cat.png'', [] @ [DbGet ''m1'' ''alice'', BlobDelete (fileName sample_asset)])
   \<and> delete_file preview_gone_env ([] @ [DbGet ''m1'' ''alice'', BlobDelete (fileName sample_asset)])
         ''alice/thumb_cat.png'' = Inl (PyException OtherError ''BlobNotFound'')
   \<and> remove_asset preview_gone_env [] ''m1'' ''alice'' =
       (Inr (), [DbGet ''m1'' ''alice'', BlobDelete ''alice/cat.png'',
                 BlobDelete ''alice/thumb_cat.png'',
                 Log WARNING ''Preview deletion failed: ''
                   (Some (PyException OtherError ''BlobNotFound'')),
                 DbDelete ''m1'' ''alice'', CreateTask NotifyLogicApp])"
proof -
  let ?w2 = "[] @ [DbGet ''m1'' ''alice'', BlobDelete (fileName sample_asset)]"
  have g: "get_media_by_id primary_delete_down_env [] ''m1'' ''alice'' = Inr (Some sample_asset)"
    and g': "get_media_by_id preview_gone_env [] ''m1'' ''alice'' = Inr (Some sample_asset)"
    by (simp_all add: primary_delete_down_env_def preview_gone_env_def sample_env_def)
  have o: "userId sample_asset = ''alice''"
    by (simp add: sample_asset_def)
  have d: "delete_file primary_delete_down_env ([] @ [DbGet ''m1'' ''alice''])
       (fileName sample_asset) = Inl (PyException OtherError ''storage down'')"
    by (simp add: primary_delete_down_env_def sample_env_def sample_asset_def)
  have d': "delete_file preview_gone_env ([] @ [DbGet ''m1'' ''alice'']) (fileName sample_asset) = Inr ()"
    by (simp add: preview_gone_env_def sample_env_def sample_asset_def)
  have p: "parse_preview_storage_identifier ?w2 sample_asset = (Some ''alice/thumb_cat.png'', ?w2)"
    by (simp add: parse_preview_storage_identifier_def sample_asset_def last_segment_def
        replace_def Let_def)
  have x: "delete_file preview_gone_env ?w2 ''alice/thumb_cat.png'' =
       Inl (PyException OtherError ''BlobNotFound'')"
    by (simp add: preview_gone_env_def sample_env_def)
  have m: "delete_media preview_gone_env w' ''m1'' ''alice'' = Inr ()" for w'
    by (simp add: preview_gone_env_def sample_env_def)
  from delete_failure_policy [OF g o, THEN conjunct1, rule_format, OF d]
  have c1: "(\<exists>c m. fst (remove_asset primary_delete_down_env [] ''m1'' ''alice'') =
              Inl (HTTPException c m))
       \<and> DbDelete ''m1'' ''alice''
           \<notin> set (emitted [] (snd (remove_asset primary_delete_down_env [] ''m1'' ''alice'')))"
    by blast
  from delete_failure_policy [OF g' o, THEN conjunct2, rule_format,
      OF conjI [OF d' conjI [OF refl conjI [OF p conjI [OF _ conjI [OF x refl]]]]],
      THEN conjunct1, rule_format, OF _ m]
  have c2: "remove_asset preview_gone_env [] ''m1'' ''alice'' =
       (Inr (), [DbGet ''m1'' ''alice'', BlobDelete ''alice/cat.png'',
                 BlobDelete ''alice/thumb_cat.png'',
                 Log WARNING ''Preview deletion failed: ''
                   (Some (PyException OtherError ''BlobNotFound'')),
                 DbDelete ''m1'' ''alice'', CreateTask NotifyLogicApp])"
    by (simp add: sample_asset_def)
  from g o d c1 g' d' p x c2 show ?thesis by blast
qed

section \<open>Labels and preview keys\<close>

text \<open>
  For any environment: a label string that decodes to a JSON value other than an array,
  on an upload that passes the two checks, ends as a 500; a string that does not decode ends
  as a 400.
\<close>

lemma non_array_labels:
  assumes "determine_file_category e f = Inr t" and "verify_file_constraints e f None = Inr n"
    and "s \<noteq> []" and "json_loads e s = Inr v" and "\<forall>xs. v \<noteq> JArray xs"
  shows "upload_new_asset e w f d (Some s) a =
           (Inl (HTTPException 500 ''Upload operation failed: Labels must be provided as an array''),
            w @ [Log ERROR ''Asset upload failed: ''
                   (Some (PyException ValueError ''Labels must be provided as an array''))])"
  using assms
  by (cases v)
    (simp_all add: upload_new_asset_def upload_new_asset_try_def parse_label_data_def status_defs)

lemma undecodable_labels:
  assumes "determine_file_category e f = Inr t" and "verify_file_constraints e f None = Inr n"
    and "s \<noteq> []" and "json_loads e s = Inl m"
  shows "upload_new_asset e w f d (Some s) a =
           (Inl (HTTPException 400 ''Label data format invalid. Expected JSON array.''), w)"
  using assms
  by (simp add: upload_new_asset_def upload_new_asset_try_def parse_label_data_def status_defs)

text \<open>
  C5. The upload of a supported image with the label string \<open>{}\<close>, which is valid JSON and
  not an array, ends as a 500 with the message of the \<open>ValueError\<close>, where the label string
  \<open>{\<close>, which is not valid JSON, ends as the 400 for an invalid label format.
\<close>

theorem non_array_labels_end_as_500:
  "upload_new_asset sample_env [] sample_png None (Some ''{}'') ''alice'' =
     (Inl (HTTPException 500 ''Upload operation failed: Labels must be provided as an array''),
      [Log ERROR ''Asset upload failed: ''
         (Some (PyException ValueError ''Labels must be provided as an array''))])
   \<and> upload_new_asset sample_env [] sample_png None (Some ''{'') ''alice'' =
     (Inl (HTTPException 400 ''Label data format invalid. Expected JSON array.''), [])"
proof -
  have 1: "json_loads sample_env ''{}'' = Inr (JObject [])"
    and 2: "json_loads sample_env ''{'' = Inl ''Expecting value''"
    by (simp_all add: sample_env_def sample_json_loads_def)
  show ?thesis
    using non_array_labels [OF sample_png_checks(1) sample_png_checks(2) _ 1, of "[]" None "''alice''"]
      undecodable_labels [OF sample_png_checks(1) sample_png_checks(2) _ 2, of "[]" None "''alice''"]
    by simp
qed

text \<open>
  C6. For a stored image whose storage key does not contain the original file name, the
  derivation returns the primary storage key itself, not \<open>None\<close>, and the delete route then
  deletes the primary key a second time as if it were the preview.
\<close>

theorem preview_key_pattern_not_found:
  "parse_preview_storage_identifier [] renamed_asset = (Some ''alice/3f2a91.png'', [])
   \<and> fileName renamed_asset = ''alice/3f2a91.png''
   \<and> originalFileName renamed_asset = Some ''cat.png''
   \<and> remove_asset renamed_env [] ''m1'' ''alice'' =
       (Inr (), [DbGet ''m1'' ''alice'', BlobDelete ''alice/3f2a91.png'',
                 BlobDelete ''alice/3f2a91.png'', DbDelete ''m1'' ''alice'',
                 CreateTask NotifyLogicApp])"
  by (simp add: parse_preview_storage_identifier_def renamed_asset_def sample_asset_def
      last_segment_def replace_def Let_def remove_asset_def remove_asset_try_def
      retrieve_and_confirm_asset_ownership_def delete_preview_def renamed_env_def sample_env_def)

text \<open>
  What the derivation does in the other cases: no preview URL or no original file name
  gives \<open>None\<close>, and a key that ends with the original name gets the marker in front of it.
\<close>

lemma preview_key_absent_cases:
  "thumbnailUrl doc = None \<Longrightarrow> parse_preview_storage_identifier w doc = (None, w)"
  "thumbnailUrl doc = Some url \<Longrightarrow> url \<noteq> [] \<Longrightarrow> originalFileName doc = None \<Longrightarrow>
   fst (parse_preview_storage_identifier w doc) = None"
  by (simp_all add: parse_preview_storage_identifier_def)

lemma preview_key_sample:
  "parse_preview_storage_identifier [] sample_asset = (Some ''alice/thumb_cat.png'', [])"
  by (simp add: parse_preview_storage_identifier_def sample_asset_def last_segment_def
      replace_def Let_def)

section \<open>Update\<close>

lemma assemble_field_updates_fields:
  "fu_updatedAt (assemble_field_updates now md) = now"
  "fu_description (assemble_field_updates now md) = mu_description md"
  "fu_tags (assemble_field_updates now md) = mu_tags md"
  by (simp_all add: assemble_field_updates_def Let_def split: option.splits)

lemma apply_assembled:
  "apply_field_updates (assemble_field_updates now md) r =
     r\<lparr>updatedAt := now,
       description := (case mu_description md of None \<Rightarrow> description r | Some x \<Rightarrow> Some x),
       tags := (case mu_tags md of None \<Rightarrow> tags r | Some t \<Rightarrow> Some t)\<rparr>"
  by (simp add: apply_field_updates_def assemble_field_updates_fields Let_def
      split: option.splits)

lemma modify_owned:
  assumes "get_media_by_id e w i a = Inr (Some doc)" and "userId doc = a"
  shows "(\<exists>rest. emitted w (snd (modify_asset_metadata e w i md a)) =
            DbGet i a # DbUpdate i a (assemble_field_updates (utcnow e (w @ [DbGet i a])) md) # rest)
       \<and> (\<forall>r. update_media e (w @ [DbGet i a]) i a
                 (assemble_field_updates (utcnow e (w @ [DbGet i a])) md) = Inr r \<longrightarrow>
              fst (modify_asset_metadata e w i md a) = Inr r)"
  using assms
  by (auto simp: modify_asset_metadata_def modify_asset_metadata_try_def guard_passes Let_def
      emitted_def split: sum.splits exn.splits)

text \<open>
  C9 as the code has it. The update of an owned asset sends the store one set of field
  updates: the new timestamp always, the description exactly when the request's description
  is not null, the labels exactly when the request's labels are not null; the route returns
  what the store returns. In a store that merges the fields it is given, a null (or omitted)
  field therefore keeps its stored value, a supplied value replaces it, an empty string or
  an empty list included, the updated timestamp is the new one, and every other field of the
  record is as it was.
\<close>

theorem update_writes_non_null_fields:
  assumes "get_media_by_id e w i a = Inr (Some doc)" and "userId doc = a"
  shows "(\<exists>rest. emitted w (snd (modify_asset_metadata e w i md a)) =
            DbGet i a # DbUpdate i a (assemble_field_updates (utcnow e (w @ [DbGet i a])) md) # rest)
       \<and> (\<forall>r. update_media e (w @ [DbGet i a]) i a
                 (assemble_field_updates (utcnow e (w @ [DbGet i a])) md) = Inr r \<longrightarrow>
              fst (modify_asset_metadata e w i md a) = Inr r)
       \<and> fu_updatedAt (assemble_field_updates now md) = now
       \<and> fu_description (assemble_field_updates now md) = mu_description md
       \<and> fu_tags (assemble_field_updates now md) = mu_tags md
       \<and> apply_field_updates (assemble_field_updates now md) r0 =
           r0\<lparr>updatedAt := now,
              description := (case mu_description md of None \<Rightarrow> description r0 | Some x \<Rightarrow> Some x),
              tags := (case mu_tags md of None \<Rightarrow> tags r0 | Some t \<Rightarrow> Some t)\<rparr>"
  using modify_owned [OF assms, of md]
  by (simp add: assemble_field_updates_fields apply_assembled)

theorem update_writes_non_null_fields_witness:
  "get_media_by_id sample_env [] ''m1'' ''alice'' = Inr (Some sample_asset)
   \<and> userId sample_asset = ''alice''
   \<and> update_media sample_env ([] @ [DbGet ''m1'' ''alice'']) ''m1'' ''alice''
        (assemble_field_updates (utcnow sample_env ([] @ [DbGet ''m1'' ''alice'']))
           \<lparr>mu_description = Some ''a dog'', mu_tags = None\<rparr>) =
       Inr (sample_asset\<lparr>updatedAt := ''t1'', description := Some ''a dog''\<rparr>)
   \<and> fst (modify_asset_metadata sample_env [] ''m1''
           \<lparr>mu_description = Some ''a dog'', mu_tags = None\<rparr> ''alice'') =
       Inr (sample_asset\<lparr>updatedAt := ''t1'', description := Some ''a dog''\<rparr>)
   \<and> tags (sample_asset\<lparr>updatedAt := ''t1'', description := Some ''a dog''\<rparr>) = tags sample_asset"
proof -
  have g: "get_media_by_id sample_env [] ''m1'' ''alice'' = Inr (Some sample_asset)"
    by (simp add: sample_env_def)
  have o: "userId sample_asset = ''alice''"
    by (simp add: sample_asset_def)
  have u: "update_media sample_env ([] @ [DbGet ''m1'' ''alice'']) ''m1'' ''alice''
        (assemble_field_updates (utcnow sample_env ([] @ [DbGet ''m1'' ''alice'']))
           \<lparr>mu_description = Some ''a dog'', mu_tags = None\<rparr>) =
       Inr (sample_asset\<lparr>updatedAt := ''t1'', description := Some ''a dog''\<rparr>)"
    by (simp add: sample_env_def apply_assembled)
  from update_writes_non_null_fields [OF g o, THEN conjunct2, THEN conjunct1, rule_format, OF u]
  have "fst (modify_asset_metadata sample_env [] ''m1''
           \<lparr>mu_description = Some ''a dog'', mu_tags = None\<rparr> ''alice'') =
       Inr (sample_asset\<lparr>updatedAt := ''t1'', description := Some ''a dog''\<rparr>)" .
  with g o u show ?thesis by simp
qed

text \<open>
  C9 as the spec states it fails: an update that supplies the empty string as description
  and the empty list as labels stores the empty string and the empty list, not null, and an
  update that supplies null for both leaves the stored description and labels in place.
\<close>

theorem update_empty_or_null_is_not_written_as_null:
  "modify_asset_metadata sample_env [] ''m1'' \<lparr>mu_description = Some '''', mu_tags = Some []\<rparr>
     ''alice'' =
     (Inr (sample_asset\<lparr>updatedAt := ''t1'', description := Some '''', tags := Some []\<rparr>),
      [DbGet ''m1'' ''alice'',
       DbUpdate ''m1'' ''alice''
         \<lparr>fu_updatedAt = ''t1'', fu_description = Some '''', fu_tags = Some []\<rparr>,
       CreateTask NotifyLogicApp])
   \<and> description (sample_asset\<lparr>updatedAt := ''t1'', description := Some '''', tags := Some []\<rparr>)
       \<noteq> None
   \<and> tags (sample_asset\<lparr>updatedAt := ''t1'', description := Some '''', tags := Some []\<rparr>) \<noteq> None
   \<and> modify_asset_metadata sample_env [] ''m1'' \<lparr>mu_description = None, mu_tags = None\<rparr>
     ''alice'' =
     (Inr (sample_asset\<lparr>updatedAt := ''t1''\<rparr>),
      [DbGet ''m1'' ''alice'',
       DbUpdate ''m1'' ''alice'' \<lparr>fu_updatedAt = ''t1'', fu_description = None, fu_tags = None\<rparr>,
       CreateTask NotifyLogicApp])
   \<and> description (sample_asset\<lparr>updatedAt := ''t1''\<rparr>) = Some ''a cat''
   \<and> tags (sample_asset\<lparr>updatedAt := ''t1''\<rparr>) = Some [JString ''pet'']"
  by (simp add: modify_asset_metadata_def modify_asset_metadata_try_def
      retrieve_and_confirm_asset_ownership_def assemble_field_updates_def apply_field_updates_def
      sample_env_def sample_asset_def Let_def)

section \<open>Notification\<close>


lemma posted_append: "posted (xs @ ys) = posted xs @ posted ys"
  by (induction xs rule: posted.induct) simp_all


lemma posted_none: "(\<forall>u p. HttpPost u p \<notin> set xs) \<Longrightarrow> posted xs = []"
  by (induction xs rule: posted.induct) auto






























end
